theory Spec2Isabelle
  imports Main "HOL-Library.AList" "HOL-Library.Sublist"
begin

section \<open>The player adapter of \<^verbatim>\<open>src/app/youtube/Player.ts\<close>\<close>

text \<open>
  \<^verbatim>\<open>Player\<close> wraps the player element of the page: it replaces every operation the
  element announces by a closure that calls \<^verbatim>\<open>callApi\<close>, relays those calls and the
  element's native events to a message port, and puts the original operations back
  when it is disposed.

  The embedding passes the state explicitly, and a call that throws returns the state
  it has reached together with its error. Everything the class calls but does not
  define (the port, the operations of the element, the listenable, the base class) is
  opaque: each such call is appended to a trace, and what it answers is read from an
  environment that the theorems quantify over.
\<close>

subsection \<open>Values\<close>

text \<open>
  A function object is known by its reference only. \<open>Native n\<close> is a function the
  page put on the element; \<open>Forwarder i k\<close> is the closure
  \<^verbatim>\<open>(...args) => this.callApi(key, ...args)\<close> that the adapter with id \<open>i\<close> creates for
  the key \<open>k\<close> (line 53); \<open>Builtin n\<close> is the function that \<^verbatim>\<open>Object.prototype\<close> holds
  under the name \<open>n\<close>.
\<close>

datatype callable = Native nat | Forwarder string string | Builtin string

text \<open>
  JavaScript values, as far as the class looks at them. Numbers are the integral
  ones (the state codes). \<open>VObj fs\<close> is a plain object: its own properties are the
  table \<open>fs\<close>, all of them enumerable and writable, and its prototype is
  \<^verbatim>\<open>Object.prototype\<close>, which is the value \<open>VObjectPrototype\<close>.
\<close>

datatype val =
    VUndefined
  | VNull
  | VBool bool
  | VNum int
  | VStr string
  | VFun callable
  | VObj "(string \<times> val) list"
  | VObjectPrototype

text \<open>The conversion to boolean behind \<^verbatim>\<open>if (x)\<close>, \<^verbatim>\<open>!x\<close> and \<^verbatim>\<open>x || y\<close>.\<close>

fun truthy :: "val \<Rightarrow> bool" where
  "truthy VUndefined = False"
| "truthy VNull = False"
| "truthy (VBool b) = b"
| "truthy (VNum n) = (n \<noteq> 0)"
| "truthy (VStr s) = (s \<noteq> [])"
| "truthy (VFun c) = True"
| "truthy (VObj fs) = True"
| "truthy VObjectPrototype = True"

text \<open>
  The element is, in the words of the specification, a dynamic record from names to
  values: \<^verbatim>\<open>o[key]\<close> reads the table, a missing name reads as \<^verbatim>\<open>undefined\<close>, and
  \<^verbatim>\<open>o[key] = v\<close> writes the table.
\<close>

definition getProp :: "(string \<times> val) list \<Rightarrow> string \<Rightarrow> val" where
  "getProp ps k = (case map_of ps k of Some v \<Rightarrow> v | None \<Rightarrow> VUndefined)"

text \<open>\<^verbatim>\<open>args[i]\<close> of a rest parameter: \<^verbatim>\<open>undefined\<close> beyond its length.\<close>

definition arg_at :: "val list \<Rightarrow> nat \<Rightarrow> val" where
  "arg_at args i = (if i < length args then args ! i else VUndefined)"

text \<open>\<^verbatim>\<open>args[0] = v\<close>: an empty array grows to length one.\<close>

fun set_arg0 :: "val \<Rightarrow> val list \<Rightarrow> val list" where
  "set_arg0 v [] = [v]"
| "set_arg0 v (a # as) = v # as"

subsection \<open>Event kinds, events, errors\<close>

text \<open>
  Modelled from the spec: the enumeration \<^verbatim>\<open>EventType\<close> is declared in
  \<^verbatim>\<open>EventType.ts\<close>, outside the sources at hand. Its members are the ones
  \<^verbatim>\<open>Player.ts\<close> names, which are the emitted event kinds the specification lists;
  the values behind the names are never inspected.
\<close>

datatype EventType =
    READY | UNSTARTED | ENDED | PLAYED | PAUSED | BUFFERING | CUED
  | VOLUME_CHANGE | FULLSCREEN_CHANGE | QUALITY_CHANGE | RATE_CHANGE
  | API_CHANGE | ERROR | SIZE_CHANGE
  | AD_UNSTARTED | AD_ENDED | AD_PLAYED | AD_PAUSED | AD_BUFFERING | AD_CUED
  | SHARE_PANEL_OPENED | VIDEO_DATA_CHANGE | PLAYLIST_UPDATE
  | CUE_RANGE_ENTER | CUE_RANGE_EXIT | CONNECTION_ISSUE | SHARE_CLICKED
  | LOAD_PROGRESS | VIDEO_PROGRESS | RELOAD_REQUIRED | DESTROY

text \<open>
  Modelled from the spec: \<^verbatim>\<open>PlayerEvent\<close> (\<^verbatim>\<open>PlayerListenable.ts\<close>) is outside the
  sources at hand. The class reads \<^verbatim>\<open>e.detail\<close> and calls \<^verbatim>\<open>e.preventDefault()\<close>,
  which by the specification marks the event as cancelled.
\<close>

record PlayerEvent =
  detail :: val
  defaultPrevented :: bool

definition preventDefault :: "PlayerEvent \<Rightarrow> PlayerEvent" where
  "preventDefault e = e\<lparr>defaultPrevented := True\<rparr>"

text \<open>
  What a call can throw: \<open>Error m\<close> is \<^verbatim>\<open>throw new Error(m)\<close> of the class itself,
  \<open>TypeError\<close> the failure of the runtime on calling a value that is no function, on
  reading or writing a property of \<^verbatim>\<open>undefined\<close>, or on writing a property that
  cannot be written (the module is strict code).
\<close>

datatype error = Error string | TypeError

subsection \<open>The element, the snapshot object, the environment and the state\<close>

text \<open>
  The element of the page: its property table, and the list its
  \<^verbatim>\<open>getApiInterface\<close> function returns (declared \<^verbatim>\<open>() => string[]\<close>, line 10).
\<close>

record element =
  props :: "(string \<times> val) list"
  apiInterface :: "string list"

text \<open>
  The object \<^verbatim>\<open>api\<close> that \<^verbatim>\<open>getApi\<close> creates as \<^verbatim>\<open>{}\<close> (line 198) is an object of
  the language: it has own properties, in the order of their creation, and a
  prototype, which is \<^verbatim>\<open>Object.prototype\<close> until an assignment to \<^verbatim>\<open>__proto__\<close>
  replaces it.
\<close>

record jsobj =
  own :: "(string \<times> val) list"
  proto :: val

text \<open>An argument of a port call: a value, or a member of \<^verbatim>\<open>EventType\<close>.\<close>

datatype parg = Val val | Kind EventType

text \<open>The calls that leave the class, in the order they are made.\<close>

datatype effect =
    PortCall string "parg list"
  | Invoke callable "val list"
  | NewListenable jsobj
  | YtAddEventListener val val
  | YtRemoveEventListener val val
  | ListenableDispose
  | SuperDisposeInternal

text \<open>
  The answers of the collaborators: \<open>port ch args\<close> is what
  \<^verbatim>\<open>ServicePort.callSync(ch, ...args)\<close> returns, \<open>result c args\<close> what the function
  object \<open>c\<close> returns on \<open>args\<close>. The last three fields describe the members of a
  function object \<open>c\<close>, as seen on \<open>c\<close> or on an object that has \<open>c\<close> for its
  prototype and does not own the name: \<open>fn_member c name\<close> is what reading the name
  gives, \<open>fn_put c name\<close> whether assigning to the name creates an own property (the
  assignment throws otherwise), and \<open>fn_keys c\<close> the names a \<^verbatim>\<open>for-in\<close> loop takes
  from \<open>c\<close>.
\<close>

record env =
  port :: "string \<Rightarrow> parg list \<Rightarrow> val"
  result :: "callable \<Rightarrow> val list \<Rightarrow> val"
  fn_member :: "callable \<Rightarrow> string \<Rightarrow> val"
  fn_put :: "callable \<Rightarrow> string \<Rightarrow> bool"
  fn_keys :: "callable \<Rightarrow> string list"

text \<open>
  The state: \<open>dom\<close> is the element object the constructor was given (\<open>None\<close> for
  \<^verbatim>\<open>null\<close> or \<^verbatim>\<open>undefined\<close>), which the page keeps after the adapter has dropped its
  reference; the \<open>p_\<close> fields are those of the \<^verbatim>\<open>Player\<close> object. \<open>p_element\<close> and
  \<open>p_port\<close> tell whether \<^verbatim>\<open>this._element\<close> and \<^verbatim>\<open>this._port\<close> are still set,
  \<open>p_playerListenable\<close> whether the listenable has been created, and \<open>p_disposed\<close> is
  what \<^verbatim>\<open>isDisposed()\<close> of the base class answers.
\<close>

record state =
  dom :: "element option"
  trace :: "effect list"
  p_id :: string
  p_element :: bool
  p_port :: bool
  p_api :: "jsobj option"
  p_playerListenable :: bool
  p_disposed :: bool

text \<open>The outcome of a call: what it throws or returns, and the state it leaves.\<close>

type_synonym 'a res = "(error + 'a) \<times> state"

definition bindE :: "'a res \<Rightarrow> ('a \<Rightarrow> state \<Rightarrow> 'b res) \<Rightarrow> 'b res" where
  "bindE m f = (case m of (Inl e, s) \<Rightarrow> (Inl e, s) | (Inr x, s) \<Rightarrow> f x s)"

definition emit :: "effect \<Rightarrow> state \<Rightarrow> state" where
  "emit x s = s\<lparr>trace := trace s @ [x]\<rparr>"

text \<open>\<^verbatim>\<open>this._element\<close>.\<close>

definition this_element :: "state \<Rightarrow> element option" where
  "this_element s = (if p_element s then dom s else None)"

subsection \<open>Calls to the collaborators\<close>

text \<open>\<^verbatim>\<open>this._port.callSync(ch, ...args)\<close>; a \<^verbatim>\<open>TypeError\<close> once \<^verbatim>\<open>_port\<close> is deleted.\<close>

definition callSync :: "env \<Rightarrow> string \<Rightarrow> parg list \<Rightarrow> state \<Rightarrow> val res" where
  "callSync en ch args s =
     (if p_port s then (Inr (port en ch args), emit (PortCall ch args) s)
      else (Inl TypeError, s))"

text \<open>
  \<^verbatim>\<open>f(...args)\<close> for a value \<open>f\<close> read from the snapshot. What a function object
  returns, a built-in one too, is the environment's to say.
\<close>

fun invoke :: "env \<Rightarrow> val \<Rightarrow> val list \<Rightarrow> state \<Rightarrow> val res" where
  "invoke en (VFun c) args s = (Inr (result en c args), emit (Invoke c args) s)"
| "invoke en v args s = (Inl TypeError, s)"

text \<open>
  \<^verbatim>\<open>returnValue.value\<close> (line 109), reached for a truthy \<^verbatim>\<open>returnValue\<close> only: the
  property of an object, and \<^verbatim>\<open>undefined\<close> on a primitive, which has no such member.
\<close>

fun member_value :: "env \<Rightarrow> val \<Rightarrow> val" where
  "member_value en (VObj fs) = getProp fs ''value''"
| "member_value en (VFun c) = fn_member en c ''value''"
| "member_value en v = VUndefined"

subsection \<open>The snapshot object\<close>

text \<open>
  The members of \<^verbatim>\<open>Object.prototype\<close>: functions, none of them enumerable, and the
  accessor \<^verbatim>\<open>__proto__\<close>, which reads and replaces the prototype of the object it is
  used on.
\<close>

definition object_prototype_names :: "string list" where
  "object_prototype_names =
     [''constructor'', ''__defineGetter__'', ''__defineSetter__'', ''hasOwnProperty'',
      ''__lookupGetter__'', ''__lookupSetter__'', ''isPrototypeOf'',
      ''propertyIsEnumerable'', ''toString'', ''valueOf'', ''toLocaleString'']"

definition object_prototype_get :: "jsobj \<Rightarrow> string \<Rightarrow> val" where
  "object_prototype_get api name =
     (if name = ''__proto__'' then proto api
      else if name \<in> set object_prototype_names then VFun (Builtin name)
      else VUndefined)"

text \<open>
  \<^verbatim>\<open>api[name]\<close>: the own property, or else what the prototype chain holds. A function
  object in the chain hands on the \<^verbatim>\<open>__proto__\<close> of \<^verbatim>\<open>Object.prototype\<close>.
\<close>

definition api_get :: "env \<Rightarrow> jsobj \<Rightarrow> string \<Rightarrow> val" where
  "api_get en api name =
     (case map_of (own api) name of
        Some v \<Rightarrow> v
      | None \<Rightarrow>
          (case proto api of
             VObjectPrototype \<Rightarrow> object_prototype_get api name
           | VObj fs \<Rightarrow>
               (case map_of fs name of
                  Some v \<Rightarrow> v
                | None \<Rightarrow> object_prototype_get api name)
           | VFun c \<Rightarrow> if name = ''__proto__'' then proto api else fn_member en c name
           | _ \<Rightarrow> VUndefined))"

text \<open>
  The setter of \<^verbatim>\<open>__proto__\<close>: an object or \<^verbatim>\<open>null\<close> becomes the prototype, any
  other value is ignored.
\<close>

definition set_prototype :: "val \<Rightarrow> jsobj \<Rightarrow> jsobj" where
  "set_prototype v api =
     (case v of
        VNull \<Rightarrow> api\<lparr>proto := v\<rparr>
      | VObj fs \<Rightarrow> api\<lparr>proto := v\<rparr>
      | VFun c \<Rightarrow> api\<lparr>proto := v\<rparr>
      | VObjectPrototype \<Rightarrow> api\<lparr>proto := v\<rparr>
      | _ \<Rightarrow> api)"

text \<open>An own property is written in place, or created after the others.\<close>

definition put_own :: "string \<Rightarrow> val \<Rightarrow> jsobj \<Rightarrow> jsobj" where
  "put_own key v api = api\<lparr>own := AList.update key v (own api)\<rparr>"

text \<open>
  \<^verbatim>\<open>api[key] = v\<close> (line 203). A name the object owns is written. Otherwise the
  chain decides: the accessor \<^verbatim>\<open>__proto__\<close> takes the value where no object in
  between has a property of that name, a function object in the chain answers
  through the environment, and in every other case the object gets a property of its
  own.
\<close>

definition api_set :: "env \<Rightarrow> string \<Rightarrow> val \<Rightarrow> jsobj \<Rightarrow> error + jsobj" where
  "api_set en key v api =
     (if map_of (own api) key \<noteq> None then Inr (put_own key v api)
      else case proto api of
             VObjectPrototype \<Rightarrow>
               Inr (if key = ''__proto__'' then set_prototype v api else put_own key v api)
           | VObj fs \<Rightarrow>
               Inr (if key = ''__proto__'' \<and> map_of fs key = None then set_prototype v api
                    else put_own key v api)
           | VFun c \<Rightarrow>
               if key = ''__proto__'' then Inr (set_prototype v api)
               else if fn_put en c key then Inr (put_own key v api)
               else Inl TypeError
           | _ \<Rightarrow> Inr (put_own key v api))"

text \<open>
  The order in which the language enumerates the names of an object: those that are
  array indices first, by value, then the others in the order of their creation.
\<close>

definition digit :: "char \<Rightarrow> nat option" where
  "digit = map_of [(CHR ''0'', 0), (CHR ''1'', 1), (CHR ''2'', 2), (CHR ''3'', 3),
                   (CHR ''4'', 4), (CHR ''5'', 5), (CHR ''6'', 6), (CHR ''7'', 7),
                   (CHR ''8'', 8), (CHR ''9'', 9)]"

fun decimal :: "nat \<Rightarrow> string \<Rightarrow> nat option" where
  "decimal n [] = Some n"
| "decimal n (c # cs) = (case digit c of None \<Rightarrow> None | Some d \<Rightarrow> decimal (10 * n + d) cs)"

definition array_index :: "string \<Rightarrow> nat option" where
  "array_index k =
     (case k of
        [] \<Rightarrow> None
      | c # cs \<Rightarrow>
          if c = CHR ''0'' \<and> cs \<noteq> [] then None
          else (case decimal 0 k of
                  None \<Rightarrow> None
                | Some n \<Rightarrow> if n < 4294967295 then Some n else None))"

definition js_key_order :: "string list \<Rightarrow> string list" where
  "js_key_order ks =
     sort_key (\<lambda>k. case array_index k of Some n \<Rightarrow> n | None \<Rightarrow> 0)
       (filter (\<lambda>k. array_index k \<noteq> None) ks)
     @ filter (\<lambda>k. array_index k = None) ks"

text \<open>
  The names \<^verbatim>\<open>for (let key in api)\<close> visits (lines 51 and 62): the own ones, then
  the enumerable ones of the prototype chain that have not been visited.
\<close>

definition forin_keys :: "env \<Rightarrow> jsobj \<Rightarrow> string list" where
  "forin_keys en api =
     (let ks = js_key_order (map fst (own api))
      in ks @ filter (\<lambda>k. k \<notin> set ks)
                (case proto api of
                   VObj fs \<Rightarrow> js_key_order (remdups (map fst fs))
                 | VFun c \<Rightarrow> remdups (fn_keys en c)
                 | _ \<Rightarrow> []))"

text \<open>
  \<^verbatim>\<open>api.hasOwnProperty(key)\<close> (lines 52 and 63), read like any other member of the
  snapshot: the built-in function tells whether the object owns the name, another
  function is called and its answer taken as a boolean, and a value that is no
  function cannot be called.
\<close>

definition hasOwnProperty :: "env \<Rightarrow> jsobj \<Rightarrow> string \<Rightarrow> state \<Rightarrow> bool res" where
  "hasOwnProperty en api key s =
     (case api_get en api ''hasOwnProperty'' of
        VFun c \<Rightarrow>
          if c = Builtin ''hasOwnProperty'' then (Inr (map_of (own api) key \<noteq> None), s)
          else (Inr (truthy (result en c [VStr key])), emit (Invoke c [VStr key]) s)
      | _ \<Rightarrow> (Inl TypeError, s))"

subsection \<open>\<^verbatim>\<open>getApi\<close> (lines 185-210)\<close>

text \<open>The loop of lines 201-204: \<^verbatim>\<open>api[key] = player[key]\<close> for each announced key.\<close>

fun snapshot :: "env \<Rightarrow> (string \<times> val) list \<Rightarrow> string list \<Rightarrow> jsobj \<Rightarrow> error + jsobj" where
  "snapshot en ps [] api = Inr api"
| "snapshot en ps (key # apiList) api =
     (case api_set en key (getProp ps key) api of
        Inl e \<Rightarrow> Inl e
      | Inr api' \<Rightarrow> snapshot en ps apiList api')"

definition is_function :: "val \<Rightarrow> bool" where
  "is_function v = (case v of VFun c \<Rightarrow> True | _ \<Rightarrow> False)"

definition getApi :: "env \<Rightarrow> state \<Rightarrow> jsobj res" where
  "getApi en s =
     (case p_api s of
        Some api \<Rightarrow> (Inr api, s)
      | None \<Rightarrow>
          (case this_element s of
             None \<Rightarrow> (Inl (Error (''Player ('' @ p_id s @ '') is not initialized.'')), s)
           | Some player \<Rightarrow>
               if \<not> is_function (getProp (props player) ''getApiInterface'')
               then (Inl (Error ''No API interface on player element.''), s)
               else (case snapshot en (props player) (apiInterface player)
                            \<lparr>own = [], proto = VObjectPrototype\<rparr> of
                       Inl e \<Rightarrow> (Inl e, s)
                     | Inr api \<Rightarrow> (Inr api, s\<lparr>p_api := Some api\<rparr>))))"

subsection \<open>Construction and disposal (lines 42-76)\<close>

text \<open>
  The loops of lines 51-55 and 62-66, for the names still to visit: a name that
  passes the test of \<^verbatim>\<open>hasOwnProperty\<close> is written on the element with the value
  \<open>f key\<close>; writing a property of a missing element is a \<^verbatim>\<open>TypeError\<close>.
\<close>

fun assign_keys :: "env \<Rightarrow> (string \<Rightarrow> val) \<Rightarrow> jsobj \<Rightarrow> string list \<Rightarrow> state \<Rightarrow> unit res" where
  "assign_keys en f api [] s = (Inr (), s)"
| "assign_keys en f api (key # keys) s =
     bindE (hasOwnProperty en api key s) (\<lambda>b s1.
       if b then
         (case this_element s1 of
            None \<Rightarrow> (Inl TypeError, s1)
          | Some el \<Rightarrow>
              assign_keys en f api keys
                (s1\<lparr>dom := Some (el\<lparr>props := AList.update key (f key) (props el)\<rparr>)\<rparr>))
       else assign_keys en f api keys s1)"

definition assign_all :: "env \<Rightarrow> (string \<Rightarrow> val) \<Rightarrow> jsobj \<Rightarrow> state \<Rightarrow> unit res" where
  "assign_all en f api s = assign_keys en f api (forin_keys en api) s"

definition constructor :: "env \<Rightarrow> string \<Rightarrow> element option \<Rightarrow> unit res" where
  "constructor en i el =
     bindE (getApi en \<lparr>dom = el, trace = [], p_id = i, p_element = (el \<noteq> None),
                       p_port = True, p_api = None, p_playerListenable = False,
                       p_disposed = False\<rparr>)
       (\<lambda>api. assign_all en (\<lambda>key. VFun (Forwarder i key)) api)"

definition disposeInternal :: "env \<Rightarrow> state \<Rightarrow> unit res" where
  "disposeInternal en s =
     bindE (getApi en (emit SuperDisposeInternal s)) (\<lambda>api s1.
     bindE (assign_all en (api_get en api) api s1) (\<lambda>u s2.
       (Inr (), (if p_playerListenable s2 then emit ListenableDispose s2 else s2)
                  \<lparr>p_playerListenable := False, p_element := False,
                   p_api := None, p_port := False\<rparr>)))"

text \<open>
  Modelled from the spec: \<^verbatim>\<open>dispose()\<close> is inherited from \<^verbatim>\<open>Component\<close>
  (\<^verbatim>\<open>libs/Component.ts\<close>), outside the sources at hand. By the specification a double
  disposal is a no-op: an adapter already disposed is left alone, any other is marked
  disposed and runs \<^verbatim>\<open>disposeInternal\<close>.
\<close>

definition dispose :: "env \<Rightarrow> state \<Rightarrow> unit res" where
  "dispose en s =
     (if p_disposed s then (Inr (), s) else disposeInternal en (s\<lparr>p_disposed := True\<rparr>))"

subsection \<open>Event listeners (lines 113-136)\<close>

text \<open>
  \<^verbatim>\<open>PlayerListenable\<close> is outside the sources at hand: its creation and the calls of
  its methods are recorded on the trace.
\<close>

definition getPlayerListenable :: "env \<Rightarrow> state \<Rightarrow> unit res" where
  "getPlayerListenable en s =
     (if \<not> p_playerListenable s
      then bindE (getApi en s) (\<lambda>api s1.
             (Inr (), (emit (NewListenable api) s1)\<lparr>p_playerListenable := True\<rparr>))
      else (Inr (), s))"

definition priv_addEventListener :: "env \<Rightarrow> val \<Rightarrow> val \<Rightarrow> state \<Rightarrow> unit res" where
  "priv_addEventListener en type fn s =
     bindE (getApi en s) (\<lambda>api s1.
       if p_disposed s1
       then bindE (invoke en (api_get en api ''addEventListener'') [type, fn] s1)
              (\<lambda>v s2. (Inr (), s2))
       else bindE (getPlayerListenable en s1)
              (\<lambda>u s2. (Inr (), emit (YtAddEventListener type fn) s2)))"

definition priv_removeEventListener :: "env \<Rightarrow> val \<Rightarrow> val \<Rightarrow> state \<Rightarrow> unit res" where
  "priv_removeEventListener en type fn s =
     bindE (getApi en s) (\<lambda>api s1.
       if p_disposed s1
       then bindE (invoke en (api_get en api ''removeEventListener'') [type, fn] s1)
              (\<lambda>v s2. (Inr (), s2))
       else bindE (getPlayerListenable en s1)
              (\<lambda>u s2. (Inr (), emit (YtRemoveEventListener type fn) s2)))"

subsection \<open>Event forwarding (lines 221-328)\<close>

definition fireEvent :: "env \<Rightarrow> PlayerEvent \<Rightarrow> EventType \<Rightarrow> val list \<Rightarrow> state \<Rightarrow> PlayerEvent res" where
  "fireEvent en e type args s =
     bindE (callSync en ''player#event'' (Val (VStr (p_id s)) # Kind type # map Val args) s)
       (\<lambda>r s1. (Inr (if truthy r then preventDefault e else e), s1))"

text \<open>The \<^verbatim>\<open>switch\<close> of lines 237-258; \<^verbatim>\<open>case\<close> compares with \<^verbatim>\<open>===\<close>.\<close>

definition stateChangeType :: "val \<Rightarrow> EventType option" where
  "stateChangeType st =
     (if st = VNum (- 1) then Some UNSTARTED
      else if st = VNum 0 then Some ENDED
      else if st = VNum 1 then Some PLAYED
      else if st = VNum 2 then Some PAUSED
      else if st = VNum 3 then Some BUFFERING
      else if st = VNum 5 then Some CUED
      else None)"

definition handleStateChange :: "env \<Rightarrow> PlayerEvent \<Rightarrow> state \<Rightarrow> PlayerEvent res" where
  "handleStateChange en e s =
     (case stateChangeType (detail e) of
        None \<Rightarrow> (Inr e, s)
      | Some type \<Rightarrow> fireEvent en e type [] s)"

text \<open>The \<^verbatim>\<open>switch\<close> of lines 304-325.\<close>

definition adStateChangeType :: "val \<Rightarrow> EventType option" where
  "adStateChangeType st =
     (if st = VNum (- 1) then Some AD_UNSTARTED
      else if st = VNum 0 then Some AD_ENDED
      else if st = VNum 1 then Some AD_PLAYED
      else if st = VNum 2 then Some AD_PAUSED
      else if st = VNum 3 then Some AD_BUFFERING
      else if st = VNum 5 then Some AD_CUED
      else None)"

definition handleAdStateChange :: "env \<Rightarrow> PlayerEvent \<Rightarrow> state \<Rightarrow> PlayerEvent res" where
  "handleAdStateChange en e s =
     (case adStateChangeType (detail e) of
        None \<Rightarrow> (Inr e, s)
      | Some type \<Rightarrow> fireEvent en e type [] s)"

subsection \<open>\<^verbatim>\<open>callApi\<close> (lines 82-111)\<close>

text \<open>Lines 103-110, for the \<^verbatim>\<open>returnValue\<close> the \<^verbatim>\<open>switch\<close> has left.\<close>

definition callApi_return :: "env \<Rightarrow> string \<Rightarrow> val list \<Rightarrow> val \<Rightarrow> state \<Rightarrow> val res" where
  "callApi_return en name args returnValue s =
     (if \<not> truthy returnValue
      then bindE (getApi en s) (\<lambda>api. invoke en (api_get en api name) args)
      else (Inr (member_value en returnValue), s))"

text \<open>Line 99 and what follows it.\<close>

definition callApi_default :: "env \<Rightarrow> string \<Rightarrow> val list \<Rightarrow> state \<Rightarrow> val res" where
  "callApi_default en name args s =
     bindE (callSync en ''player#api-call''
              (Val (VStr (p_id s)) # Val (VStr name) # map Val args) s)
       (callApi_return en name args)"

definition callApi :: "env \<Rightarrow> string \<Rightarrow> val list \<Rightarrow> state \<Rightarrow> val res" where
  "callApi en name args s =
     (if name = ''addEventListener'' then
        bindE (priv_addEventListener en (arg_at args 0) (arg_at args 1) s)
          (\<lambda>u. callApi_return en name args VUndefined)
      else if name = ''removeEventListener'' then
        bindE (priv_removeEventListener en (arg_at args 0) (arg_at args 1) s)
          (\<lambda>u. callApi_return en name args VUndefined)
      else if name = ''destroy'' then
        bindE (fireEvent en \<lparr>detail = VNull, defaultPrevented = False\<rparr> DESTROY [] s)
          (\<lambda>e. callApi_return en name args VUndefined)
      else if name = ''loadVideoByPlayerVars'' \<or> name = ''cueVideoByPlayerVars''
              \<or> name = ''updateVideoData'' then
        bindE (callSync en ''player#data-update''
                 [Val (VStr (p_id s)), Val (arg_at args 0)] s)
          (\<lambda>data. callApi_default en name
                     (set_arg0 (if truthy data then data else arg_at args 0) args))
      else callApi_default en name args s)"


subsection \<open>Reachable states\<close>

text \<open>
  What a call may change besides the trace and the listenable: nothing of the element,
  of the identity and references of the adapter, of its disposal, and no snapshot once
  taken.
\<close>

definition frame :: "state \<Rightarrow> state \<Rightarrow> bool" where
  "frame s s' \<longleftrightarrow>
     dom s' = dom s \<and> p_disposed s' = p_disposed s \<and> p_id s' = p_id s \<and>
     p_element s' = p_element s \<and> p_port s' = p_port s \<and>
     (\<forall>api. p_api s = Some api \<longrightarrow> p_api s' = Some api)"






subsection \<open>A concrete adapter\<close>

text \<open>
  An element with five operations, the adapter \<^verbatim>\<open>p1\<close> built on it, the same adapter
  after disposal, and an environment whose port answers \<open>r\<close> to every call.
\<close>

definition ex_element :: element where
  "ex_element =
     \<lparr>props = [(''getApiInterface'', VFun (Native 0)), (''playVideo'', VFun (Native 1)),
               (''addEventListener'', VFun (Native 2)),
               (''removeEventListener'', VFun (Native 5)), (''destroy'', VFun (Native 3)),
               (''loadVideoByPlayerVars'', VFun (Native 4))],
      apiInterface = [''playVideo'', ''addEventListener'', ''removeEventListener'',
                      ''destroy'', ''loadVideoByPlayerVars'']\<rparr>"

definition ex_api :: jsobj where
  "ex_api =
     \<lparr>own = [(''playVideo'', VFun (Native 1)), (''addEventListener'', VFun (Native 2)),
             (''removeEventListener'', VFun (Native 5)), (''destroy'', VFun (Native 3)),
             (''loadVideoByPlayerVars'', VFun (Native 4))],
      proto = VObjectPrototype\<rparr>"

definition ex_live :: state where
  "ex_live =
     \<lparr>dom = Some \<lparr>props = [(''getApiInterface'', VFun (Native 0)),
                            (''playVideo'', VFun (Forwarder ''p1'' ''playVideo'')),
                            (''addEventListener'', VFun (Forwarder ''p1'' ''addEventListener'')),
                            (''removeEventListener'',
                               VFun (Forwarder ''p1'' ''removeEventListener'')),
                            (''destroy'', VFun (Forwarder ''p1'' ''destroy'')),
                            (''loadVideoByPlayerVars'',
                               VFun (Forwarder ''p1'' ''loadVideoByPlayerVars''))],
                   apiInterface = apiInterface ex_element\<rparr>,
      trace = [], p_id = ''p1'', p_element = True, p_port = True, p_api = Some ex_api,
      p_playerListenable = False, p_disposed = False\<rparr>"

definition ex_disposed :: state where
  "ex_disposed =
     \<lparr>dom = Some ex_element, trace = [SuperDisposeInternal], p_id = ''p1'',
      p_element = False, p_port = False, p_api = None, p_playerListenable = False,
      p_disposed = True\<rparr>"

definition ex_env :: "val \<Rightarrow> env" where
  "ex_env r =
     \<lparr>port = (\<lambda>ch args. r), result = (\<lambda>c args. VStr ''native''),
      fn_member = (\<lambda>c name. VUndefined), fn_put = (\<lambda>c name. True), fn_keys = (\<lambda>c. [])\<rparr>"


section \<open>Basic facts\<close>

lemma callSync_live:
  "p_port s \<Longrightarrow> callSync en ch args s = (Inr (port en ch args), emit (PortCall ch args) s)"
  by (simp add: callSync_def)

lemma bindE_Inr: "bindE (Inr x, s) f = f x s"
  by (simp add: bindE_def)

lemma bindE_Inl: "bindE (Inl e, s) f = (Inl e, s)"
  by (simp add: bindE_def)

lemma emit_fields:
  "p_port (emit x s) = p_port s" "p_api (emit x s) = p_api s" "p_id (emit x s) = p_id s"
  "p_disposed (emit x s) = p_disposed s" "p_element (emit x s) = p_element s"
  "p_playerListenable (emit x s) = p_playerListenable s" "dom (emit x s) = dom s"
  "trace (emit x s) = trace s @ [x]"
  by (simp_all add: emit_def)

lemma getApi_cached: "p_api s = Some api \<Longrightarrow> getApi en s = (Inr api, s)"
  by (simp add: getApi_def)

lemma fireEvent_live:
  "p_port s \<Longrightarrow> fireEvent en e type args s =
     (Inr (if truthy (port en ''player#event'' (Val (VStr (p_id s)) # Kind type # map Val args))
           then preventDefault e else e),
      emit (PortCall ''player#event'' (Val (VStr (p_id s)) # Kind type # map Val args)) s)"
  by (simp add: fireEvent_def callSync_live bindE_Inr)



lemma callApi_default_live:
  "p_port s \<Longrightarrow> callApi_default en name args s =
     callApi_return en name args
       (port en ''player#api-call'' (Val (VStr (p_id s)) # Val (VStr name) # map Val args))
       (emit (PortCall ''player#api-call'' (Val (VStr (p_id s)) # Val (VStr name) # map Val args)) s)"
  by (simp add: callApi_default_def callSync_live bindE_Inr)

lemma getApi_trace: "getApi en s = (out, s') \<Longrightarrow> trace s' = trace s"
  by (auto simp: getApi_def split: option.splits if_splits sum.splits)

lemma invoke_trace:
  "invoke en v args s = (out, s') \<Longrightarrow>
   \<exists>rest. trace s' = trace s @ rest \<and> (\<forall>ch a. PortCall ch a \<notin> set rest)"
  by (cases v) (auto simp: emit_def)

lemma callApi_return_trace:
  assumes "callApi_return en name args r s = (out, s')"
  shows "\<exists>rest. trace s' = trace s @ rest \<and> (\<forall>ch a. PortCall ch a \<notin> set rest)"
proof (cases "truthy r")
  case True
  with assms show ?thesis by (simp add: callApi_return_def)
next
  case False
  obtain o1 s1 where g: "getApi en s = (o1, s1)" by (cases "getApi en s")
  have t1: "trace s1 = trace s" using g by (rule getApi_trace)
  show ?thesis
  proof (cases o1)
    case (Inl e)
    with assms False g t1 show ?thesis by (simp add: callApi_return_def bindE_def)
  next
    case (Inr api)
    with assms False g have "invoke en (api_get en api name) args s1 = (out, s')"
      by (simp add: callApi_return_def bindE_def)
    from invoke_trace [OF this] t1 show ?thesis by simp
  qed
qed

lemma callApi_data_load_unfold:
  assumes "name = ''loadVideoByPlayerVars'' \<or> name = ''cueVideoByPlayerVars''
             \<or> name = ''updateVideoData''"
    and "p_port s"
  shows "callApi en name args s =
           callApi_default en name
             (set_arg0 (if truthy (port en ''player#data-update'' [Val (VStr (p_id s)), Val (arg_at args 0)])
                        then port en ''player#data-update'' [Val (VStr (p_id s)), Val (arg_at args 0)]
                        else arg_at args 0) args)
             (emit (PortCall ''player#data-update'' [Val (VStr (p_id s)), Val (arg_at args 0)]) s)"
  using assms by (elim disjE) (simp_all add: callApi_def callSync_live bindE_Inr)

lemma getPlayerListenable_cached:
  "p_api s = Some api \<Longrightarrow> getPlayerListenable en s =
     (Inr (), if p_playerListenable s then s
              else s\<lparr>trace := trace s @ [NewListenable api], p_playerListenable := True\<rparr>)"
  by (simp add: getPlayerListenable_def getApi_cached bindE_Inr emit_def)

subsection \<open>The snapshot\<close>










subsection \<open>The assignment loops\<close>



lemma hasOwnProperty_fields:
  assumes "hasOwnProperty en api key s = (out, s')"
  shows "dom s' = dom s \<and> p_disposed s' = p_disposed s \<and> p_id s' = p_id s \<and>
         p_api s' = p_api s \<and> p_element s' = p_element s \<and> p_port s' = p_port s \<and>
         p_playerListenable s' = p_playerListenable s"
  using assms
  by (auto simp: hasOwnProperty_def emit_def split: val.splits if_splits)

lemma assign_keys_fields:
  assumes "assign_keys en f api keys s = (out, s')"
  shows "p_disposed s' = p_disposed s \<and> p_id s' = p_id s \<and> p_api s' = p_api s \<and>
         p_element s' = p_element s \<and> p_port s' = p_port s \<and>
         p_playerListenable s' = p_playerListenable s"
  using assms
proof (induction keys arbitrary: s)
  case Nil
  then show ?case by simp
next
  case (Cons key keys)
  obtain o1 s1 where h: "hasOwnProperty en api key s = (o1, s1)"
    by (cases "hasOwnProperty en api key s")
  note f1 = hasOwnProperty_fields [OF h]
  show ?case
  proof (cases o1)
    case (Inl e)
    with Cons.prems h f1 show ?thesis by (simp add: bindE_def)
  next
    case (Inr b)
    show ?thesis
    proof (cases b)
      case False
      with Cons.prems h Inr have "assign_keys en f api keys s1 = (out, s')"
        by (simp add: bindE_def)
      from Cons.IH [OF this] f1 show ?thesis by simp
    next
      case True
      show ?thesis
      proof (cases "this_element s1")
        case None
        with Cons.prems h Inr True f1 show ?thesis by (simp add: bindE_def)
      next
        case (Some el)
        with Cons.prems h Inr True
        have "assign_keys en f api keys
                (s1\<lparr>dom := Some (el\<lparr>props := AList.update key (f key) (props el)\<rparr>)\<rparr>) = (out, s')"
          by (simp add: bindE_def)
        from Cons.IH [OF this] f1 show ?thesis by simp
      qed
    qed
  qed
qed




subsection \<open>What the operations leave alone\<close>





lemma frame_getApi: "getApi en s = (out, s') \<Longrightarrow> frame s s'"
  by (auto simp: getApi_def frame_def split: option.splits if_splits sum.splits)












subsection \<open>The invariants of the reachable states\<close>














section \<open>The concrete adapter\<close>


lemma ex_disposed_dispose: "dispose en ex_live = (Inr (), ex_disposed)"
  by (simp add: dispose_def disposeInternal_def getApi_def emit_def assign_all_def
        forin_keys_def js_key_order_def array_index_def digit_def hasOwnProperty_def
        api_get_def object_prototype_get_def object_prototype_names_def
        this_element_def ex_element_def ex_live_def ex_api_def ex_disposed_def bindE_def Let_def)

lemma ex_live_fields:
  "p_port ex_live" "p_id ex_live = ''p1''" "p_api ex_live = Some ex_api"
  "\<not> p_disposed ex_live" "\<not> p_playerListenable ex_live" "trace ex_live = []"
  by (simp_all add: ex_live_def)

lemma ex_env_fields: "port (ex_env r) ch args = r" "result (ex_env r) c a = VStr ''native''"
  by (simp_all add: ex_env_def)


section \<open>The claims\<close>

subsection \<open>C1: shadowing while live, restoration on disposal\<close>


text \<open>
  The test of lines 52 and 63 is the \<^verbatim>\<open>hasOwnProperty\<close> of the snapshot. When the
  element announces that name with a function of the page, the function decides what
  is shadowed: here it answers \<^verbatim>\<open>false\<close> and nothing is.
\<close>

lemma announced_guard_example:
  "constructor \<lparr>port = (\<lambda>ch args. VUndefined), result = (\<lambda>c args. VBool False),
                fn_member = (\<lambda>c name. VUndefined), fn_put = (\<lambda>c name. True),
                fn_keys = (\<lambda>c. [])\<rparr>
     ''p1''
     (Some \<lparr>props = [(''getApiInterface'', VFun (Native 0)),
                      (''hasOwnProperty'', VFun (Native 9)), (''playVideo'', VFun (Native 1))],
             apiInterface = [''hasOwnProperty'', ''playVideo'']\<rparr>) =
     (Inr (),
      \<lparr>dom = Some \<lparr>props = [(''getApiInterface'', VFun (Native 0)),
                             (''hasOwnProperty'', VFun (Native 9)),
                             (''playVideo'', VFun (Native 1))],
                    apiInterface = [''hasOwnProperty'', ''playVideo'']\<rparr>,
       trace = [Invoke (Native 9) [VStr ''hasOwnProperty''],
                Invoke (Native 9) [VStr ''playVideo'']],
       p_id = ''p1'', p_element = True, p_port = True,
       p_api = Some \<lparr>own = [(''hasOwnProperty'', VFun (Native 9)),
                             (''playVideo'', VFun (Native 1))],
                      proto = VObjectPrototype\<rparr>,
       p_playerListenable = False, p_disposed = False\<rparr>)"
  by (simp add: constructor_def getApi_def this_element_def
        is_function_def getProp_def api_set_def put_own_def assign_all_def
        forin_keys_def js_key_order_def array_index_def digit_def hasOwnProperty_def
        api_get_def emit_def bindE_def Let_def)



subsection \<open>C2: operations without special handling\<close>




subsection \<open>C3: the data-load operations\<close>

text \<open>
  C3. For \<^verbatim>\<open>loadVideoByPlayerVars\<close>, \<^verbatim>\<open>cueVideoByPlayerVars\<close> and \<^verbatim>\<open>updateVideoData\<close>,
  \<^verbatim>\<open>callApi\<close> of a live adapter first asks the port on \<^verbatim>\<open>player#data-update\<close> to
  transform the first argument. The answer \<open>d\<close> is player data (an object) or absent:
  when it is absent the original first argument stays, otherwise \<open>d\<close> replaces it. In
  both cases the next call is the one on \<^verbatim>\<open>player#api-call\<close>, with the id, the name
  and these arguments, and no further port call follows.
\<close>

theorem callApi_data_load:
  assumes "name = ''loadVideoByPlayerVars'' \<or> name = ''cueVideoByPlayerVars''
             \<or> name = ''updateVideoData''"
    and "p_port s"
    and "d = port en ''player#data-update'' [Val (VStr (p_id s)), Val (arg_at args 0)]"
    and "d = VUndefined \<or> d = VObj fs"
    and "args' = set_arg0 (if d = VUndefined then arg_at args 0 else d) args"
  shows "\<exists>out s' rest.
           callApi en name args s = (out, s')
         \<and> trace s' = trace s @
              PortCall ''player#data-update'' [Val (VStr (p_id s)), Val (arg_at args 0)] #
              PortCall ''player#api-call''
                (Val (VStr (p_id s)) # Val (VStr name) # map Val args') #
              rest
         \<and> (\<forall>ch a. PortCall ch a \<notin> set rest)"
proof -
  let ?s1 = "emit (PortCall ''player#data-update'' [Val (VStr (p_id s)), Val (arg_at args 0)]) s"
  let ?c2 = "PortCall ''player#api-call'' (Val (VStr (p_id s)) # Val (VStr name) # map Val args')"
  let ?r = "port en ''player#api-call'' (Val (VStr (p_id s)) # Val (VStr name) # map Val args')"
  have a: "(if truthy d then d else arg_at args 0) = (if d = VUndefined then arg_at args 0 else d)"
    using assms(4) by auto
  have "callApi en name args s =
          callApi_default en name (set_arg0 (if truthy d then d else arg_at args 0) args) ?s1"
    unfolding assms(3) by (rule callApi_data_load_unfold [OF assms(1,2)])
  then have "callApi en name args s = callApi_default en name args' ?s1"
    by (simp only: a assms(5))
  then have e: "callApi en name args s = callApi_return en name args' ?r (emit ?c2 ?s1)"
    using assms(2) by (simp add: callApi_default_live emit_fields)
  obtain out s' where r: "callApi_return en name args' ?r (emit ?c2 ?s1) = (out, s')"
    by (cases "callApi_return en name args' ?r (emit ?c2 ?s1)")
  from callApi_return_trace [OF r] obtain rest
    where "trace s' = trace (emit ?c2 ?s1) @ rest" and "\<forall>ch a. PortCall ch a \<notin> set rest"
    by blast
  with e r show ?thesis by (simp add: emit_fields)
qed

theorem callApi_data_load_witness:
  "(\<exists>out s' rest.
     callApi (ex_env VUndefined) ''loadVideoByPlayerVars'' [VStr ''x'', VNum 2] ex_live = (out, s')
   \<and> trace s' =
        PortCall ''player#data-update'' [Val (VStr ''p1''), Val (VStr ''x'')] #
        PortCall ''player#api-call''
          [Val (VStr ''p1''), Val (VStr ''loadVideoByPlayerVars''), Val (VStr ''x''),
           Val (VNum 2)] #
        rest
   \<and> (\<forall>ch a. PortCall ch a \<notin> set rest))
   \<and> (\<exists>out s' rest.
     callApi (ex_env (VObj [(''value'', VNum 7)])) ''updateVideoData'' [VStr ''x'', VNum 2]
       ex_live = (out, s')
   \<and> trace s' =
        PortCall ''player#data-update'' [Val (VStr ''p1''), Val (VStr ''x'')] #
        PortCall ''player#api-call''
          [Val (VStr ''p1''), Val (VStr ''updateVideoData''),
           Val (VObj [(''value'', VNum 7)]), Val (VNum 2)] #
        rest
   \<and> (\<forall>ch a. PortCall ch a \<notin> set rest))"
  using callApi_data_load [where name = "''loadVideoByPlayerVars''" and s = ex_live
          and en = "ex_env VUndefined" and args = "[VStr ''x'', VNum 2]" and d = VUndefined
          and args' = "[VStr ''x'', VNum 2]"]
        callApi_data_load [where name = "''updateVideoData''" and s = ex_live
          and en = "ex_env (VObj [(''value'', VNum 7)])" and args = "[VStr ''x'', VNum 2]"
          and d = "VObj [(''value'', VNum 7)]" and fs = "[(''value'', VNum 7)]"
          and args' = "[VObj [(''value'', VNum 7)], VNum 2]"]
  by (simp add: ex_live_fields ex_env_fields arg_at_def)

subsection \<open>C4: the state codes\<close>

text \<open>
  C4. The handler of the native state change, on a live adapter, sends the codes
  \<open>-1, 0, 1, 2, 3, 5\<close> as the kinds unstarted, ended, played, paused, buffering, cued:
  one call of the port on \<^verbatim>\<open>player#event\<close> with the id and the kind, and nothing
  else. On any other detail it returns at once, leaving the state as it was. The
  handler of the ad state change does the same with the ad kinds.
\<close>

theorem state_change_mapping:
  assumes "p_port s"
  shows "(\<forall>c k. map_of [(- 1, UNSTARTED), (0, ENDED), (1, PLAYED), (2, PAUSED),
                         (3, BUFFERING), (5, CUED)] c = Some k
            \<and> detail e = VNum c \<longrightarrow>
            handleStateChange en e s =
              (Inr (if truthy (port en ''player#event'' [Val (VStr (p_id s)), Kind k])
                    then preventDefault e else e),
               emit (PortCall ''player#event'' [Val (VStr (p_id s)), Kind k]) s))
       \<and> (detail e \<notin> VNum ` {- 1, 0, 1, 2, 3, 5} \<longrightarrow> handleStateChange en e s = (Inr e, s))
       \<and> (\<forall>c k. map_of [(- 1, AD_UNSTARTED), (0, AD_ENDED), (1, AD_PLAYED), (2, AD_PAUSED),
                         (3, AD_BUFFERING), (5, AD_CUED)] c = Some k
            \<and> detail e = VNum c \<longrightarrow>
            handleAdStateChange en e s =
              (Inr (if truthy (port en ''player#event'' [Val (VStr (p_id s)), Kind k])
                    then preventDefault e else e),
               emit (PortCall ''player#event'' [Val (VStr (p_id s)), Kind k]) s))
       \<and> (detail e \<notin> VNum ` {- 1, 0, 1, 2, 3, 5} \<longrightarrow> handleAdStateChange en e s = (Inr e, s))"
  using assms
  by (auto simp: handleStateChange_def handleAdStateChange_def stateChangeType_def
        adStateChangeType_def fireEvent_live split: if_splits)

theorem state_change_mapping_witness:
  "handleStateChange (ex_env VUndefined) \<lparr>detail = VNum 1, defaultPrevented = False\<rparr> ex_live =
     (Inr \<lparr>detail = VNum 1, defaultPrevented = False\<rparr>,
      emit (PortCall ''player#event'' [Val (VStr ''p1''), Kind PLAYED]) ex_live)
   \<and> handleAdStateChange (ex_env VUndefined) \<lparr>detail = VNum 1, defaultPrevented = False\<rparr> ex_live =
     (Inr \<lparr>detail = VNum 1, defaultPrevented = False\<rparr>,
      emit (PortCall ''player#event'' [Val (VStr ''p1''), Kind AD_PLAYED]) ex_live)
   \<and> handleStateChange (ex_env VUndefined) \<lparr>detail = VNum 4, defaultPrevented = False\<rparr> ex_live =
     (Inr \<lparr>detail = VNum 4, defaultPrevented = False\<rparr>, ex_live)
   \<and> handleAdStateChange (ex_env VUndefined) \<lparr>detail = VNum 4, defaultPrevented = False\<rparr> ex_live =
     (Inr \<lparr>detail = VNum 4, defaultPrevented = False\<rparr>, ex_live)"
  using state_change_mapping [where s = ex_live and en = "ex_env VUndefined"
          and e = "\<lparr>detail = VNum 1, defaultPrevented = False\<rparr>"]
        state_change_mapping [where s = ex_live and en = "ex_env VUndefined"
          and e = "\<lparr>detail = VNum 4, defaultPrevented = False\<rparr>"]
  by (simp add: ex_live_fields ex_env_fields)

subsection \<open>C5: the port decides on the default\<close>

text \<open>
  C5 as stated fails on the code: line 224 tests the response for truth, so the
  response \<open>1\<close>, which is not the boolean \<^verbatim>\<open>true\<close>, suppresses the default too.
\<close>

theorem truthy_response_counterexample:
  "VNum 1 \<noteq> VBool True
   \<and> fireEvent (ex_env (VNum 1)) \<lparr>detail = VNum 9, defaultPrevented = False\<rparr> ERROR [VNum 9]
       ex_live =
       (Inr \<lparr>detail = VNum 9, defaultPrevented = True\<rparr>,
        emit (PortCall ''player#event'' [Val (VStr ''p1''), Kind ERROR, Val (VNum 9)]) ex_live)"
  by (simp add: fireEvent_def callSync_def bindE_def preventDefault_def ex_live_def ex_env_def)

text \<open>
  C5, amended. Forwarding a native event \<open>e\<close> as the kind \<open>type\<close> with the extracted
  fields \<open>args\<close>, a live adapter calls the port once, on \<^verbatim>\<open>player#event\<close>, with the id,
  the kind and the fields, and applies \<^verbatim>\<open>preventDefault\<close> to the event if and only if
  the response is truthy: the boolean \<^verbatim>\<open>true\<close> suppresses the default, and so does
  every other truthy value; \<^verbatim>\<open>false\<close>, an absent response and every other falsy value
  leave the event as it was.
\<close>

theorem fireEvent_port_decides:
  assumes "p_port s"
    and "r = port en ''player#event'' (Val (VStr (p_id s)) # Kind type # map Val args)"
  shows "fireEvent en e type args s =
           (Inr (if truthy r then preventDefault e else e),
            emit (PortCall ''player#event'' (Val (VStr (p_id s)) # Kind type # map Val args)) s)
       \<and> (r = VBool True \<longrightarrow> truthy r)
       \<and> (r = VBool False \<or> r = VUndefined \<longrightarrow> \<not> truthy r)"
  using assms by (auto simp: fireEvent_live)

theorem fireEvent_port_decides_witness:
  "fireEvent (ex_env (VBool True)) \<lparr>detail = VNum 9, defaultPrevented = False\<rparr> ERROR [VNum 9]
     ex_live =
     (Inr \<lparr>detail = VNum 9, defaultPrevented = True\<rparr>,
      emit (PortCall ''player#event'' [Val (VStr ''p1''), Kind ERROR, Val (VNum 9)]) ex_live)
   \<and> fireEvent (ex_env (VStr ''yes'')) \<lparr>detail = VNum 9, defaultPrevented = False\<rparr> ERROR
       [VNum 9] ex_live =
     (Inr \<lparr>detail = VNum 9, defaultPrevented = True\<rparr>,
      emit (PortCall ''player#event'' [Val (VStr ''p1''), Kind ERROR, Val (VNum 9)]) ex_live)
   \<and> fireEvent (ex_env (VBool False)) \<lparr>detail = VNum 9, defaultPrevented = False\<rparr> ERROR [VNum 9]
     ex_live =
     (Inr \<lparr>detail = VNum 9, defaultPrevented = False\<rparr>,
      emit (PortCall ''player#event'' [Val (VStr ''p1''), Kind ERROR, Val (VNum 9)]) ex_live)
   \<and> fireEvent (ex_env VUndefined) \<lparr>detail = VNum 9, defaultPrevented = False\<rparr> ERROR [VNum 9]
     ex_live =
     (Inr \<lparr>detail = VNum 9, defaultPrevented = False\<rparr>,
      emit (PortCall ''player#event'' [Val (VStr ''p1''), Kind ERROR, Val (VNum 9)]) ex_live)"
  using fireEvent_port_decides [where s = ex_live and en = "ex_env (VBool True)"
          and r = "VBool True" and type = ERROR and args = "[VNum 9]"
          and e = "\<lparr>detail = VNum 9, defaultPrevented = False\<rparr>"]
        fireEvent_port_decides [where s = ex_live and en = "ex_env (VStr ''yes'')"
          and r = "VStr ''yes''" and type = ERROR and args = "[VNum 9]"
          and e = "\<lparr>detail = VNum 9, defaultPrevented = False\<rparr>"]
        fireEvent_port_decides [where s = ex_live and en = "ex_env (VBool False)"
          and r = "VBool False" and type = ERROR and args = "[VNum 9]"
          and e = "\<lparr>detail = VNum 9, defaultPrevented = False\<rparr>"]
        fireEvent_port_decides [where s = ex_live and en = "ex_env VUndefined"
          and r = VUndefined and type = ERROR and args = "[VNum 9]"
          and e = "\<lparr>detail = VNum 9, defaultPrevented = False\<rparr>"]
  by (simp add: ex_live_fields ex_env_fields preventDefault_def)

subsection \<open>C6: \<^verbatim>\<open>destroy\<close>\<close>

text \<open>
  C6. \<^verbatim>\<open>callApi\<close> of a live adapter with the name \<^verbatim>\<open>destroy\<close> calls the port once on
  \<^verbatim>\<open>player#event\<close> with the id and the destroy kind, and makes no other call of the
  port: none on \<^verbatim>\<open>player#api-call\<close>.
\<close>

theorem callApi_destroy:
  assumes "p_port s"
  shows "\<exists>out s' rest.
           callApi en ''destroy'' args s = (out, s')
         \<and> trace s' = trace s @ PortCall ''player#event'' [Val (VStr (p_id s)), Kind DESTROY] # rest
         \<and> (\<forall>ch a. PortCall ch a \<notin> set rest)"
proof -
  let ?s1 = "emit (PortCall ''player#event'' [Val (VStr (p_id s)), Kind DESTROY]) s"
  have d: "callApi en ''destroy'' args s = callApi_return en ''destroy'' args VUndefined ?s1"
    using assms by (simp add: callApi_def fireEvent_live bindE_Inr)
  obtain out s' where r: "callApi_return en ''destroy'' args VUndefined ?s1 = (out, s')"
    by (cases "callApi_return en ''destroy'' args VUndefined ?s1")
  from callApi_return_trace [OF r] obtain rest
    where "trace s' = trace ?s1 @ rest" and "\<forall>ch a. PortCall ch a \<notin> set rest" by blast
  with d r show ?thesis by (simp add: emit_fields)
qed

theorem callApi_destroy_witness:
  "\<exists>out s' rest.
     callApi (ex_env (VBool True)) ''destroy'' [] ex_live = (out, s')
   \<and> trace s' = PortCall ''player#event'' [Val (VStr ''p1''), Kind DESTROY] # rest
   \<and> (\<forall>ch a. PortCall ch a \<notin> set rest)"
  using callApi_destroy [where s = ex_live and en = "ex_env (VBool True)" and args = "[]"]
  by (simp add: ex_live_fields)

subsection \<open>C8: disposing twice\<close>

lemma disposeInternal_fields:
  assumes "disposeInternal en s = (Inr (), s')"
  shows "p_disposed s' = p_disposed s \<and> p_id s' = p_id s \<and> p_api s' = None \<and>
         \<not> p_element s' \<and> \<not> p_port s' \<and> \<not> p_playerListenable s'"
proof -
  let ?s0 = "emit SuperDisposeInternal s"
  obtain o1 s1 where g: "getApi en ?s0 = (o1, s1)" by (cases "getApi en ?s0")
  from g have f1: "frame ?s0 s1" by (rule frame_getApi)
  from assms g obtain api where o1: "o1 = Inr api"
    by (cases o1) (auto simp: disposeInternal_def bindE_def)
  obtain o2 s2
    where a: "assign_keys en (api_get en api) api (forin_keys en api) s1 = (o2, s2)"
    by (cases "assign_keys en (api_get en api) api (forin_keys en api) s1")
  from assms g o1 a have o2: "o2 = Inr ()"
    by (cases o2) (auto simp: disposeInternal_def assign_all_def bindE_def)
  from assms g o1 a o2
  have s': "s' = (if p_playerListenable s2 then emit ListenableDispose s2 else s2)
                   \<lparr>p_playerListenable := False, p_element := False,
                    p_api := None, p_port := False\<rparr>"
    by (simp add: disposeInternal_def assign_all_def bindE_def)
  from f1 assign_keys_fields [OF a] show ?thesis
    unfolding s' by (simp add: frame_def emit_def)
qed

text \<open>
  The method of the class alone cannot run twice: its second run finds neither the
  snapshot nor the element. The guard of \<^verbatim>\<open>dispose\<close> is what makes a second disposal
  harmless.
\<close>

lemma disposeInternal_twice:
  assumes "disposeInternal en s = (Inr (), s')"
  shows "disposeInternal en s' =
           (Inl (Error (''Player ('' @ p_id s @ '') is not initialized.'')),
            emit SuperDisposeInternal s')"
  using disposeInternal_fields [OF assms]
  by (simp add: disposeInternal_def getApi_def this_element_def emit_def bindE_def)

text \<open>
  C8. Disposing an adapter that a first disposal has left disposed throws nothing and
  changes nothing: the element, the fields of the adapter and the trace, which records
  no second restoration, are as the first disposal left them.
\<close>

theorem dispose_idempotent:
  assumes "dispose en s = (Inr (), s')"
  shows "dispose en s' = (Inr (), s')"
proof (cases "p_disposed s")
  case True
  with assms show ?thesis by (simp add: dispose_def)
next
  case False
  with assms have "disposeInternal en (s\<lparr>p_disposed := True\<rparr>) = (Inr (), s')"
    by (simp add: dispose_def)
  from disposeInternal_fields [OF this] have "p_disposed s'" by simp
  then show ?thesis by (simp add: dispose_def)
qed

theorem dispose_idempotent_witness:
  "dispose (ex_env VUndefined) ex_live = (Inr (), ex_disposed)
   \<and> dispose (ex_env VUndefined) ex_disposed = (Inr (), ex_disposed)"
  using dispose_idempotent [OF ex_disposed_dispose [of "ex_env VUndefined"]]
        ex_disposed_dispose [of "ex_env VUndefined"]
  by simp

subsection \<open>C7: listeners on a disposed adapter\<close>

text \<open>
  While the adapter is live, a listener goes to the listenable, which is created on
  first use.
\<close>

lemma priv_addEventListener_live:
  assumes "\<not> p_disposed s" and "p_api s = Some api"
  shows "priv_addEventListener en t f s =
           (Inr (), s\<lparr>trace := trace s @ (if p_playerListenable s then [] else [NewListenable api])
                                 @ [YtAddEventListener t f],
                      p_playerListenable := True\<rparr>)"
  using assms
  by (simp add: priv_addEventListener_def getApi_cached bindE_Inr getPlayerListenable_cached
        emit_def)

text \<open>
  The branch for a disposed adapter hands the listener to the native operation. It
  is taken only while the snapshot is still there, that is, during the disposal.
\<close>

lemma priv_addEventListener_disposing:
  assumes "p_disposed s" and "p_api s = Some api"
    and "api_get en api ''addEventListener'' = VFun c"
  shows "priv_addEventListener en t f s = (Inr (), emit (Invoke c [t, f]) s)"
  using assms by (simp add: priv_addEventListener_def getApi_cached bindE_Inr)

text \<open>
  C7, on the code. After a disposal the snapshot and the element are gone, so
  \<^verbatim>\<open>getApi\<close>, which both listener methods call before they test \<^verbatim>\<open>isDisposed()\<close>,
  throws: a listener call on a disposed adapter is not delegated to the native
  operation, it fails with the error of an adapter that is not initialized and calls
  nothing.
\<close>

theorem listeners_after_disposal:
  assumes "\<not> p_disposed s0" and "dispose en s0 = (Inr (), s)"
  shows "p_disposed s
       \<and> priv_addEventListener en t f s =
           (Inl (Error (''Player ('' @ p_id s @ '') is not initialized.'')), s)
       \<and> priv_removeEventListener en t f s =
           (Inl (Error (''Player ('' @ p_id s @ '') is not initialized.'')), s)
       \<and> callApi en ''addEventListener'' args s =
           (Inl (Error (''Player ('' @ p_id s @ '') is not initialized.'')), s)
       \<and> callApi en ''removeEventListener'' args s =
           (Inl (Error (''Player ('' @ p_id s @ '') is not initialized.'')), s)"
proof -
  from assms have "disposeInternal en (s0\<lparr>p_disposed := True\<rparr>) = (Inr (), s)"
    by (simp add: dispose_def)
  from disposeInternal_fields [OF this]
  have d: "p_disposed s" and a: "p_api s = None" and e: "\<not> p_element s" by simp_all
  from a e have g: "getApi en s = (Inl (Error (''Player ('' @ p_id s @ '') is not initialized.'')), s)"
    by (simp add: getApi_def this_element_def)
  show ?thesis
    using d by (simp add: callApi_def priv_addEventListener_def priv_removeEventListener_def
          g bindE_Inl)
qed

theorem listeners_after_disposal_witness:
  "\<not> p_disposed ex_live \<and> dispose (ex_env VUndefined) ex_live = (Inr (), ex_disposed)
   \<and> p_disposed ex_disposed
   \<and> callApi (ex_env VUndefined) ''addEventListener'' [VStr ''onReady'', VStr ''cb'']
       ex_disposed =
       (Inl (Error ''Player (p1) is not initialized.''), ex_disposed)"
  using listeners_after_disposal [where ?s0.0 = ex_live and s = ex_disposed
          and en = "ex_env VUndefined" and args = "[VStr ''onReady'', VStr ''cb'']"]
        ex_disposed_dispose [of "ex_env VUndefined"]
  by (simp add: ex_live_fields ex_disposed_def)

subsection \<open>C9: the two failures of \<^verbatim>\<open>getApi\<close>\<close>

text \<open>
  C9 as stated fails on the code: the error for an element without
  \<^verbatim>\<open>getApiInterface\<close> has a fixed message, which does not name the adapter \<^verbatim>\<open>p1\<close>.
\<close>

theorem missing_interface_message_counterexample:
  "fst (constructor (ex_env VUndefined) ''p1'' (Some \<lparr>props = [], apiInterface = []\<rparr>)) =
     Inl (Error ''No API interface on player element.'')
   \<and> \<not> sublist ''p1'' ''No API interface on player element.''"
  by (simp add: constructor_def getApi_def this_element_def is_function_def getProp_def
        bindE_def sublist_code(3))

text \<open>
  C9, amended. Without a snapshot, \<^verbatim>\<open>getApi\<close> (and with it the constructor) fails in
  two ways, each by an \<^verbatim>\<open>Error\<close> of the class with a message of its own, not by a
  \<^verbatim>\<open>TypeError\<close> of the runtime: for an absent element the message is
  \<^verbatim>\<open>Player (<id>) is not initialized.\<close>, which contains the id of the adapter; for an
  element without a \<^verbatim>\<open>getApiInterface\<close> function it is the fixed text
  \<^verbatim>\<open>No API interface on player element.\<close>, the same for every adapter. The two
  messages differ.
\<close>

theorem getApi_failures:
  assumes "p_api s = None"
  shows "(this_element s = None \<longrightarrow>
            getApi en s = (Inl (Error (''Player ('' @ p_id s @ '') is not initialized.'')), s)
          \<and> sublist (p_id s) (''Player ('' @ p_id s @ '') is not initialized.''))
       \<and> (\<forall>el. this_element s = Some el
                \<and> \<not> is_function (getProp (props el) ''getApiInterface'') \<longrightarrow>
            getApi en s = (Inl (Error ''No API interface on player element.''), s))
       \<and> ''Player ('' @ p_id s @ '') is not initialized.''
           \<noteq> ''No API interface on player element.''
       \<and> fst (constructor en i None) = Inl (Error (''Player ('' @ i @ '') is not initialized.''))
       \<and> (\<not> is_function (getProp (props el0) ''getApiInterface'') \<longrightarrow>
            fst (constructor en i (Some el0)) = Inl (Error ''No API interface on player element.''))"
proof -
  have "''Player ('' @ p_id s @ '') is not initialized.''
          = ''Player ('' @ p_id s @ '') is not initialized.''" ..
  then have sub: "sublist (p_id s) (''Player ('' @ p_id s @ '') is not initialized.'')"
    unfolding sublist_def by blast
  show ?thesis
    using assms sub
    by (auto simp: getApi_def this_element_def constructor_def bindE_def)
qed

theorem getApi_failures_witness:
  "getApi (ex_env VUndefined) (ex_disposed\<lparr>p_id := ''p7''\<rparr>) =
     (Inl (Error ''Player (p7) is not initialized.''), ex_disposed\<lparr>p_id := ''p7''\<rparr>)
   \<and> sublist ''p7'' ''Player (p7) is not initialized.''
   \<and> getApi (ex_env VUndefined) (ex_live\<lparr>p_api := None, dom := Some \<lparr>props = [], apiInterface = []\<rparr>\<rparr>) =
     (Inl (Error ''No API interface on player element.''),
      ex_live\<lparr>p_api := None, dom := Some \<lparr>props = [], apiInterface = []\<rparr>\<rparr>)
   \<and> fst (constructor (ex_env VUndefined) ''p7'' None) = Inl (Error ''Player (p7) is not initialized.'')
   \<and> fst (constructor (ex_env VUndefined) ''p7'' (Some \<lparr>props = [], apiInterface = []\<rparr>)) =
       Inl (Error ''No API interface on player element.'')"
  using getApi_failures [where s = "ex_disposed\<lparr>p_id := ''p7''\<rparr>" and i = "''p7''"
          and en = "ex_env VUndefined"
          and ?el0.0 = "\<lparr>props = [], apiInterface = []\<rparr>"]
        getApi_failures [where s = "ex_live\<lparr>p_api := None,
                                       dom := Some \<lparr>props = [], apiInterface = []\<rparr>\<rparr>"
          and i = "''p7''" and ?el0.0 = "\<lparr>props = [], apiInterface = []\<rparr>"
          and en = "ex_env VUndefined"]
  by (simp add: ex_live_def ex_disposed_def this_element_def is_function_def getProp_def)

subsection \<open>C10: the special names fall through to the original operation\<close>



end
